theory Spec2Isabelle
  imports Complex_Main
begin

section \<open>Values shared by both variants of the service\<close>

text \<open>
  Python floats are modelled as \<^typ>\<open>real\<close>: rounding and NaN are left out, so
  arithmetic such as \<open>request.latitude + 0.01\<close> is exact here.  The infinities appear
  in one place only, the request body, where the JSON parser produces them.

  An f-string is a list of parts: its literal pieces and the floats it formats.  The
  decimal rendering of a float is not modelled, the float itself is kept.
\<close>

datatype fpart = Lit string | Float real

type_synonym fstring = "fpart list"

text \<open>The values stored in the \<open>data\<close> dict of a response.\<close>

datatype jval = JNum real | JStr string

type_synonym dict = "(string \<times> jval) list"

definition keys :: "dict \<Rightarrow> string list" where
  "keys d = map fst d"

subsection \<open>The request body and its validation\<close>

text \<open>
  A JSON request body as the parser hands it to validation, restricted to the three
  fields of the model; each is absent (\<open>None\<close>), \<open>null\<close> or a number.  A number is
  the float the parser reads: a finite one, or an infinity for a literal too large for
  a float, as \<open>1e400\<close> and \<open>-1e400\<close> are.
\<close>

datatype jnum = Null | Num real | Infinity | Minus_Infinity

type_synonym body = "string \<rightharpoonup> jnum"

text \<open>\<open>class SoilCarbonRequest(BaseModel)\<close>, the same in \<open>main.py\<close> and \<open>main_simple.py\<close>.\<close>

record SoilCarbonRequest =
  latitude :: real
  longitude :: real
  max_distance_km :: "real option"

text \<open>
  One entry of the error list of a failed validation: the field and the constraint it
  broke, with the bound and the input value for a broken bound.
\<close>

datatype verror =
    Field_required string
  | Float_required string
  | Not_ge string real jnum
  | Not_le string real jnum

text \<open>
  The \<open>ge\<close>/\<open>le\<close> constraints of \<open>Field\<close>, applied to a float.  An infinity breaks
  the bound on its side, so a float that passes both is finite.
\<close>

definition check_bounds :: "string \<Rightarrow> real \<Rightarrow> real \<Rightarrow> real \<Rightarrow> verror + real" where
  "check_bounds fld ge le x =
     (if \<not> ge \<le> x then Inl (Not_ge fld ge (Num x))
      else if \<not> x \<le> le then Inl (Not_le fld le (Num x))
      else Inr x)"

text \<open>\<open>float = Field(..., ge=, le=)\<close>: required, \<open>null\<close> is not a float.\<close>

definition required_float :: "body \<Rightarrow> string \<Rightarrow> real \<Rightarrow> real \<Rightarrow> verror + real" where
  "required_float b fld ge le =
     (case b fld of
        None \<Rightarrow> Inl (Field_required fld)
      | Some Null \<Rightarrow> Inl (Float_required fld)
      | Some (Num x) \<Rightarrow> check_bounds fld ge le x
      | Some Infinity \<Rightarrow> Inl (Not_le fld le Infinity)
      | Some Minus_Infinity \<Rightarrow> Inl (Not_ge fld ge Minus_Infinity))"

text \<open>
  \<open>Optional[float] = Field(default, ge=, le=)\<close>: an absent field takes the default
  (which is not validated), \<open>null\<close> is accepted as \<open>None\<close>, and the bounds are
  applied to numbers only.
\<close>

definition optional_float ::
  "body \<Rightarrow> string \<Rightarrow> real \<Rightarrow> real \<Rightarrow> real \<Rightarrow> verror + real option" where
  "optional_float b fld dflt ge le =
     (case b fld of
        None \<Rightarrow> Inr (Some dflt)
      | Some Null \<Rightarrow> Inr None
      | Some (Num x) \<Rightarrow> map_sum id Some (check_bounds fld ge le x)
      | Some Infinity \<Rightarrow> Inl (Not_le fld le Infinity)
      | Some Minus_Infinity \<Rightarrow> Inl (Not_ge fld ge Minus_Infinity))"

definition errors_of :: "verror + 'a \<Rightarrow> verror list" where
  "errors_of r = (case r of Inl e \<Rightarrow> [e] | Inr _ \<Rightarrow> [])"

text \<open>
  Validation of the body against \<open>SoilCarbonRequest\<close>: every field is checked, and the
  errors of all fields are reported together.
\<close>

definition validate :: "body \<Rightarrow> verror list + SoilCarbonRequest" where
  "validate b =
     (let la = required_float b ''latitude'' (- 90) 90;
          lo = required_float b ''longitude'' (- 180) 180;
          md = optional_float b ''max_distance_km'' 10.0 0.1 1000
      in case (la, lo, md) of
           (Inr x, Inr y, Inr d) \<Rightarrow>
             Inr \<lparr>latitude = x, longitude = y, max_distance_km = d\<rparr>
         | _ \<Rightarrow> Inl (errors_of la @ errors_of lo @ errors_of md))"

subsection \<open>Responses\<close>

text \<open>\<open>class SoilCarbonResponse(BaseModel)\<close>.\<close>

record SoilCarbonResponse =
  success :: bool
  message :: fstring
  data :: "dict option"

text \<open>
  What a request to \<open>POST /soil_carbon\<close> is answered with: the response model with
  status 200, an \<open>HTTPException(status_code, detail)\<close> raised by the handler, the
  framework's rejection of a body that fails validation (status 422, with the error
  list as its body), or the framework's bare "Internal Server Error" (status 500) when
  it fails itself.
\<close>

datatype http_response =
    Response200 SoilCarbonResponse
  | HTTPException nat fstring
  | RequestValidationError "verror list"
  | Internal_Server_Error

fun status_code :: "http_response \<Rightarrow> nat" where
  "status_code (Response200 _) = 200"
| "status_code (HTTPException c _) = c"
| "status_code (RequestValidationError _) = 422"
| "status_code Internal_Server_Error = 500"

definition client_error :: "http_response \<Rightarrow> bool" where
  "client_error r \<longleftrightarrow> 400 \<le> status_code r \<and> status_code r < 500"

text \<open>
  The framework's answer to a body that fails validation; the handler does not run.
  The body of the 422 response is the error list as JSON, each broken bound with its
  input value.  JSON has no infinity: when an input is one, writing the body fails and
  the request is answered with status 500 instead.
\<close>

fun finite_input :: "jnum \<Rightarrow> bool" where
  "finite_input Null = True"
| "finite_input (Num _) = True"
| "finite_input Infinity = False"
| "finite_input Minus_Infinity = False"

fun renderable :: "verror \<Rightarrow> bool" where
  "renderable (Field_required _) = True"
| "renderable (Float_required _) = True"
| "renderable (Not_ge _ _ v) = finite_input v"
| "renderable (Not_le _ _ v) = finite_input v"

definition validation_error_response :: "verror list \<Rightarrow> http_response" where
  "validation_error_response errs =
     (if list_all renderable errs then RequestValidationError errs
      else Internal_Server_Error)"

section \<open>The mock variant (\<open>main_simple.py\<close>)\<close>

definition mock_data :: "SoilCarbonRequest \<Rightarrow> dict" where
  "mock_data request =
     [(''carbon_pct'', JNum 2.5),
      (''sample_id'', JStr ''mock_12345''),
      (''distance_meters'', JNum 1500.0),
      (''latitude'', JNum (latitude request + 0.01)),
      (''longitude'', JNum (longitude request + 0.01)),
      (''note'', JStr
        ''This is mock data. Real soil carbon functionality will be added after deployment.'')]"

text \<open>The handler \<open>get_soil_carbon\<close> of \<open>main_simple.py\<close>.\<close>

definition get_soil_carbon_simple :: "SoilCarbonRequest \<Rightarrow> http_response" where
  "get_soil_carbon_simple request =
     (if \<not> (- 90 \<le> latitude request \<and> latitude request \<le> 90) then
        HTTPException 400 [Lit ''Latitude must be between -90 and 90 degrees'']
      else if \<not> (- 180 \<le> longitude request \<and> longitude request \<le> 180) then
        HTTPException 400 [Lit ''Longitude must be between -180 and 180 degrees'']
      else
        Response200 \<lparr>success = True,
          message = [Lit ''Mock soil carbon data returned successfully''],
          data = Some (mock_data request)\<rparr>)"

text \<open>\<open>POST /soil_carbon\<close> of the mock variant: validation, then the handler.\<close>

definition post_soil_carbon_simple :: "body \<Rightarrow> http_response" where
  "post_soil_carbon_simple b =
     (case validate b of
        Inl errs \<Rightarrow> validation_error_response errs
      | Inr request \<Rightarrow> get_soil_carbon_simple request)"

section \<open>The lookup (\<open>main.py\<close>)\<close>

subsection \<open>The dataset\<close>

text \<open>
  A row of the frame returned by \<open>ossl.get_properties(..., require_complete=False)\<close>:
  its index label (\<open>nearest.name\<close>) and its columns.  A column that is null (NaN) in
  the row has no entry, so \<open>cols r var\<close> is \<open>row.get(var)\<close> with \<open>None\<close> for a value
  that \<open>pd.notnull\<close> rejects.
\<close>

record row =
  name :: jval
  cols :: "string \<rightharpoonup> real"

text \<open>A point \<open>(x, y)\<close>; in EPSG:4326 \<open>x\<close> is the longitude and \<open>y\<close> the latitude.\<close>

type_synonym point = "real \<times> real"

text \<open>A row of a \<open>GeoDataFrame\<close>: the row and its geometry.\<close>

type_synonym geo_row = "row \<times> point"

text \<open>
  Lines 53 to 60: \<open>dropna\<close> keeps the rows whose two coordinate columns are not null,
  and \<open>points_from_xy(longitude, latitude)\<close> gives each of them its point.
\<close>

definition dropna :: "string list \<Rightarrow> row list \<Rightarrow> row list" where
  "dropna subset_cols props = filter (\<lambda>r. \<forall>c \<in> set subset_cols. cols r c \<noteq> None) props"

definition points_from_xy :: "string \<Rightarrow> string \<Rightarrow> row list \<Rightarrow> geo_row list" where
  "points_from_xy xcol ycol props =
     List.map_filter
       (\<lambda>r. case (cols r xcol, cols r ycol) of
               (Some x, Some y) \<Rightarrow> Some (r, (x, y))
             | _ \<Rightarrow> None) props"

definition GeoDataFrame :: "row list \<Rightarrow> geo_row list" where
  "GeoDataFrame props =
     points_from_xy ''longitude.point_wgs84_dd'' ''latitude.point_wgs84_dd''
       (dropna [''latitude.point_wgs84_dd'', ''longitude.point_wgs84_dd''] props)"

subsection \<open>The geometry library, as the lookup uses it\<close>

text \<open>
  \<open>Point.buffer(r).bounds\<close>: the buffer of a point is a polygon inscribed in the circle
  of radius \<open>r\<close> with vertices on the four axis directions, so its bounds are
  \<open>(minx, miny, maxx, maxy) = (x - r, y - r, x + r, y + r)\<close>.  For \<open>r \<le> 0\<close> the buffer
  is empty and has no bounds; the index query is then taken to return no row.  A
  validated request never gets there, its radius being at least 0.1.
\<close>

type_synonym bounds = "real \<times> real \<times> real \<times> real"

definition buffer_bounds :: "point \<Rightarrow> real \<Rightarrow> bounds option" where
  "buffer_bounds p r =
     (if 0 < r then Some (fst p - r, snd p - r, fst p + r, snd p + r) else None)"

text \<open>
  \<open>sindex.intersection(bbox)\<close> followed by \<open>gdf.iloc[...]\<close>: the rows whose point lies
  in the closed box.  The order in which the index returns them is the library's; the
  frame order is used here, and nothing below depends on it except between samples at
  exactly the same distance.
\<close>

definition in_bounds :: "bounds \<Rightarrow> point \<Rightarrow> bool" where
  "in_bounds bb p =
     (case bb of (minx, miny, maxx, maxy) \<Rightarrow>
        minx \<le> fst p \<and> fst p \<le> maxx \<and> miny \<le> snd p \<and> snd p \<le> maxy)"

definition sindex_intersection :: "geo_row list \<Rightarrow> bounds option \<Rightarrow> geo_row list" where
  "sindex_intersection gdf bbox =
     (case bbox of None \<Rightarrow> [] | Some bb \<Rightarrow> filter (\<lambda>g. in_bounds bb (snd g)) gdf)"

text \<open>
  \<open>to_crs(epsg=3857)\<close>: the spherical Mercator projection on the sphere of radius
  6378137 m, from degrees to metres.
\<close>

definition earth_radius :: real where
  "earth_radius = 6378137"

definition to_crs_3857 :: "point \<Rightarrow> point" where
  "to_crs_3857 p =
     (earth_radius * (fst p * pi / 180),
      earth_radius * ln (tan (pi / 4 + snd p * pi / 360)))"

text \<open>\<open>geometry.distance\<close>: the planar distance between two points.\<close>

definition distance :: "point \<Rightarrow> point \<Rightarrow> real" where
  "distance p q = sqrt ((fst p - fst q)\<^sup>2 + (snd p - snd q)\<^sup>2)"

text \<open>The column \<open>distance_m\<close> of a candidate, for the query point \<open>input_point\<close>.\<close>

definition distance_m :: "point \<Rightarrow> geo_row \<Rightarrow> real" where
  "distance_m input_point g = distance (to_crs_3857 (snd g)) (to_crs_3857 input_point)"

subsection \<open>\<open>find_soil_carbon_optimized\<close>\<close>

text \<open>The function returns a dict or a string.\<close>

datatype lookup_result = Str fstring | Dict dict

text \<open>
  The loop over the candidate fields: the first value that is not null, or \<open>None\<close>
  when the loop runs to its \<open>else\<close>.
\<close>

fun first_notnull :: "row \<Rightarrow> string list \<Rightarrow> real option" where
  "first_notnull nearest [] = None"
| "first_notnull nearest (var # vars) =
     (case cols nearest var of
        Some val \<Rightarrow> Some val
      | None \<Rightarrow> first_notnull nearest vars)"

definition carbon_vars :: "string list" where
  "carbon_vars = [''oc_iso.10694_w.pct'', ''oc_usda.c1059_w.pct'', ''oc_usda.c729_w.pct'']"

definition possible_matches :: "geo_row list \<Rightarrow> point \<Rightarrow> real \<Rightarrow> geo_row list" where
  "possible_matches gdf input_point max_dist_km =
     (let buffer_deg = max_dist_km / 111.0;
          bbox = buffer_bounds input_point buffer_deg
      in sindex_intersection gdf bbox)"

definition nearby :: "geo_row list \<Rightarrow> point \<Rightarrow> real \<Rightarrow> geo_row list" where
  "nearby gdf input_point max_dist_km =
     filter (\<lambda>g. distance_m input_point g \<le> max_dist_km * 1000)
       (possible_matches gdf input_point max_dist_km)"

definition no_data :: "real \<Rightarrow> fstring" where
  "no_data max_dist_km = [Lit ''No Data in '', Float max_dist_km, Lit '' km radius'']"

definition no_carbon :: "real \<Rightarrow> fstring" where
  "no_carbon max_dist_km =
     [Lit ''No organic carbon data available within '', Float max_dist_km, Lit '' km'']"

text \<open>
  The body of the \<open>try\<close>, once the dataset is loaded and the radius is a number.
  \<open>sort_values('distance_m').iloc[0]\<close> is the head of the candidates sorted by
  distance; it is taken only after the emptiness check, as in the source.
\<close>

definition lookup :: "row list \<Rightarrow> real \<Rightarrow> real \<Rightarrow> real \<Rightarrow> lookup_result" where
  "lookup props lat lon max_dist_km =
     (let gdf = GeoDataFrame props;
          input_point = (lon, lat)
      in if possible_matches gdf input_point max_dist_km = [] then
           Str (no_data max_dist_km)
         else if nearby gdf input_point max_dist_km = [] then
           Str (no_data max_dist_km)
         else
           let nearest = hd (sort_key (distance_m input_point)
                                (nearby gdf input_point max_dist_km))
           in case first_notnull (fst nearest) carbon_vars of
                None \<Rightarrow> Str (no_carbon max_dist_km)
              | Some carbon_val \<Rightarrow>
                  Dict [(''carbon_pct'', JNum carbon_val),
                        (''sample_id'', name (fst nearest)),
                        (''distance_meters'', JNum (distance_m input_point nearest)),
                        (''latitude'', JNum (snd (snd nearest))),
                        (''longitude'', JNum (fst (snd nearest)))])"

text \<open>
  The whole function.  \<open>ossl\<close> is what \<open>get_ossl()\<close> and \<open>get_properties\<close> give: the
  frame, or the text of the exception they raise.  A radius of \<open>None\<close> makes
  \<open>max_distance_km / 111.0\<close> raise a \<open>TypeError\<close>.  Every exception inside the \<open>try\<close>
  is raised again as \<open>Exception("Error processing soil carbon data: ...")\<close>; the result
  \<open>Inl m\<close> is that exception with the text \<open>m\<close>.
\<close>

definition type_error_text :: fstring where
  "type_error_text =
     [Lit (''unsupported operand type(s) for /: 'NoneType' and 'float'' @ [CHR 0x27])]"

definition find_soil_carbon_optimized ::
  "fstring + row list \<Rightarrow> real \<Rightarrow> real \<Rightarrow> real option \<Rightarrow> fstring + lookup_result" where
  "find_soil_carbon_optimized ossl lat lon max_dist_km =
     (case ossl of
        Inl e \<Rightarrow> Inl (Lit ''Error processing soil carbon data: '' # e)
      | Inr props \<Rightarrow>
          (case max_dist_km of
             None \<Rightarrow> Inl (Lit ''Error processing soil carbon data: '' # type_error_text)
           | Some d \<Rightarrow> Inr (lookup props lat lon d)))"

subsection \<open>The handler and the endpoint\<close>

text \<open>
  The handler \<open>get_soil_carbon\<close> of \<open>main.py\<close>.  Next to the response it returns the calls
  of \<open>find_soil_carbon_optimized\<close> it made, each with its arguments.
\<close>

type_synonym lookup_call = "real \<times> real \<times> real option"

definition get_soil_carbon ::
  "fstring + row list \<Rightarrow> SoilCarbonRequest \<Rightarrow> http_response \<times> lookup_call list" where
  "get_soil_carbon ossl request =
     (if \<not> (- 90 \<le> latitude request \<and> latitude request \<le> 90) then
        (HTTPException 400 [Lit ''Latitude must be between -90 and 90 degrees''], [])
      else if \<not> (- 180 \<le> longitude request \<and> longitude request \<le> 180) then
        (HTTPException 400 [Lit ''Longitude must be between -180 and 180 degrees''], [])
      else
        (case find_soil_carbon_optimized ossl (latitude request) (longitude request)
                (max_distance_km request) of
           Inl e \<Rightarrow> HTTPException 500 (Lit ''Internal server error: '' # e)
         | Inr (Str result) \<Rightarrow>
             Response200 \<lparr>success = False, message = result, data = None\<rparr>
         | Inr (Dict result) \<Rightarrow>
             Response200 \<lparr>success = True,
               message = [Lit ''Soil carbon data found successfully''],
               data = Some result\<rparr>,
         [(latitude request, longitude request, max_distance_km request)]))"

text \<open>\<open>POST /soil_carbon\<close>: validation of the body, then the handler.\<close>

definition post_soil_carbon :: "fstring + row list \<Rightarrow> body \<Rightarrow> http_response \<times> lookup_call list" where
  "post_soil_carbon ossl b =
     (case validate b of
        Inl errs \<Rightarrow> (validation_error_response errs, [])
      | Inr request \<Rightarrow> get_soil_carbon ossl request)"

section \<open>The requests of the test script (\<open>test_api.py\<close>)\<close>

definition boston :: body where
  "boston = [''latitude'' \<mapsto> Num 42.3601, ''longitude'' \<mapsto> Num (- 71.0589),
             ''max_distance_km'' \<mapsto> Num 10.0]"

definition san_francisco :: body where
  "san_francisco = [''latitude'' \<mapsto> Num 37.7749, ''longitude'' \<mapsto> Num (- 122.4194),
                    ''max_distance_km'' \<mapsto> Num 5.0]"

definition invalid_coordinates :: body where
  "invalid_coordinates = [''latitude'' \<mapsto> Num 200.0, ''longitude'' \<mapsto> Num (- 71.0589),
                          ''max_distance_km'' \<mapsto> Num 10.0]"

text \<open>Two more bodies: the radius left out, and the radius set to \<open>null\<close>.\<close>

definition boston_no_radius :: body where
  "boston_no_radius = [''latitude'' \<mapsto> Num 42.3601, ''longitude'' \<mapsto> Num (- 71.0589)]"

definition boston_null_radius :: body where
  "boston_null_radius = [''latitude'' \<mapsto> Num 42.3601, ''longitude'' \<mapsto> Num (- 71.0589),
                         ''max_distance_km'' \<mapsto> Null]"


section \<open>Sample data\<close>

text \<open>
  Rows of a frame around the Boston query of the test script, all on its latitude: one
  without a latitude, one 0.05 degrees of longitude away with a carbon value, one 0.01
  degrees away without any and one with two, and one more than a degree away.
\<close>

definition no_coordinates :: row where
  "no_coordinates = \<lparr>name = JStr ''s0'',
     cols = [''longitude.point_wgs84_dd'' \<mapsto> - 71.0589, ''oc_iso.10694_w.pct'' \<mapsto> 3.1]\<rparr>"

definition far_with_carbon :: row where
  "far_with_carbon = \<lparr>name = JStr ''s1'',
     cols = [''latitude.point_wgs84_dd'' \<mapsto> 42.3601,
             ''longitude.point_wgs84_dd'' \<mapsto> - 71.0089,
             ''oc_usda.c729_w.pct'' \<mapsto> 1.8]\<rparr>"

definition near_without_carbon :: row where
  "near_without_carbon = \<lparr>name = JStr ''s2'',
     cols = [''latitude.point_wgs84_dd'' \<mapsto> 42.3601,
             ''longitude.point_wgs84_dd'' \<mapsto> - 71.0489]\<rparr>"

definition near_with_carbon :: row where
  "near_with_carbon = \<lparr>name = JStr ''s3'',
     cols = [''latitude.point_wgs84_dd'' \<mapsto> 42.3601,
             ''longitude.point_wgs84_dd'' \<mapsto> - 71.0489,
             ''oc_usda.c1059_w.pct'' \<mapsto> 2.5,
             ''oc_usda.c729_w.pct'' \<mapsto> 2.4]\<rparr>"

definition outside :: row where
  "outside = \<lparr>name = JStr ''s4'',
     cols = [''latitude.point_wgs84_dd'' \<mapsto> 42.3601,
             ''longitude.point_wgs84_dd'' \<mapsto> - 70,
             ''oc_iso.10694_w.pct'' \<mapsto> 0.9]\<rparr>"

text \<open>A row at latitude 60, one degree of longitude east of the meridian.\<close>

definition north :: row where
  "north = \<lparr>name = JStr ''s5'',
     cols = [''latitude.point_wgs84_dd'' \<mapsto> 60,
             ''longitude.point_wgs84_dd'' \<mapsto> 1,
             ''oc_iso.10694_w.pct'' \<mapsto> 1.2]\<rparr>"

section \<open>Notions of the specification\<close>

text \<open>
  The great-circle distance of the specification, written from its words and not from
  the code: the length of the shortest arc between two points given in degrees, on a
  sphere of radius \<open>R\<close>.
\<close>

definition radians :: "real \<Rightarrow> real" where
  "radians deg = deg * pi / 180"

definition great_circle_distance :: "real \<Rightarrow> point \<Rightarrow> point \<Rightarrow> real" where
  "great_circle_distance R p q =
     R * arccos (sin (radians (snd p)) * sin (radians (snd q)) +
                 cos (radians (snd p)) * cos (radians (snd q)) * cos (radians (fst q - fst p)))"

text \<open>The body of a response with status 200; the other responses carry a detail.\<close>

fun body_of :: "http_response \<Rightarrow> SoilCarbonResponse option" where
  "body_of (Response200 r) = Some r"
| "body_of (HTTPException _ _) = None"
| "body_of (RequestValidationError _) = None"
| "body_of Internal_Server_Error = None"

section \<open>Validation and the handler\<close>

lemmas validate_defs =
  validate_def required_float_def optional_float_def check_bounds_def errors_of_def

lemma validate_in_range:
  assumes "validate b = Inr request"
  shows "- 90 \<le> latitude request" "latitude request \<le> 90"
    "- 180 \<le> longitude request" "longitude request \<le> 180"
  using assms
  by (auto simp: validate_defs Let_def split: option.splits jnum.splits sum.splits if_splits)

lemma validate_boston:
  "validate boston =
     Inr \<lparr>latitude = 42.3601, longitude = - 71.0589, max_distance_km = Some 10\<rparr>"
  by (simp add: validate_defs boston_def)

lemma validate_boston_no_radius:
  "validate boston_no_radius =
     Inr \<lparr>latitude = 42.3601, longitude = - 71.0589, max_distance_km = Some 10\<rparr>"
  by (simp add: validate_defs boston_no_radius_def)

lemma validate_boston_null_radius:
  "validate boston_null_radius =
     Inr \<lparr>latitude = 42.3601, longitude = - 71.0589, max_distance_km = None\<rparr>"
  by (simp add: validate_defs boston_null_radius_def)

lemma validate_invalid_coordinates:
  "validate invalid_coordinates = Inl [Not_le ''latitude'' 90 (Num 200)]"
  by (simp add: validate_defs invalid_coordinates_def)


lemma validation_error_response_no_body [simp]:
  "body_of (validation_error_response errs) = None"
  "status_code (validation_error_response errs) \<noteq> 200"
  by (simp_all add: validation_error_response_def)

text \<open>
  C10.  A request that reaches the handler has passed validation, so its latitude is in
  \<open>[-90, 90]\<close> and its longitude in \<open>[-180, 180]\<close>: the handler's own two checks never
  fire, and neither variant answers with the status 400 of those branches.
\<close>

theorem handler_checks_unreachable:
  assumes "validate b = Inr request"
  shows "- 90 \<le> latitude request \<and> latitude request \<le> 90 \<and>
         - 180 \<le> longitude request \<and> longitude request \<le> 180 \<and>
         status_code (fst (get_soil_carbon ossl request)) \<noteq> 400 \<and>
         status_code (get_soil_carbon_simple request) \<noteq> 400"
  using validate_in_range[OF assms]
  by (simp add: get_soil_carbon_def get_soil_carbon_simple_def
      split: sum.splits lookup_result.splits)

theorem handler_checks_unreachable_witness:
  "validate boston =
     Inr \<lparr>latitude = 42.3601, longitude = - 71.0589, max_distance_km = Some 10\<rparr> \<and>
   status_code (fst (get_soil_carbon (Inr [])
     \<lparr>latitude = 42.3601, longitude = - 71.0589, max_distance_km = Some 10\<rparr>)) \<noteq> 400 \<and>
   status_code (get_soil_carbon_simple
     \<lparr>latitude = 42.3601, longitude = - 71.0589, max_distance_km = Some 10\<rparr>) \<noteq> 400"
  using handler_checks_unreachable[OF validate_boston, of "Inr []"] validate_boston by simp

lemma validate_coords_ok:
  assumes "b ''latitude'' = Some (Num x)" "- 90 \<le> x" "x \<le> 90"
    and "b ''longitude'' = Some (Num y)" "- 180 \<le> y" "y \<le> 180"
  shows "validate b =
     (case b ''max_distance_km'' of
        None \<Rightarrow> Inr \<lparr>latitude = x, longitude = y, max_distance_km = Some 10\<rparr>
      | Some Null \<Rightarrow> Inr \<lparr>latitude = x, longitude = y, max_distance_km = None\<rparr>
      | Some (Num d) \<Rightarrow>
          if \<not> 0.1 \<le> d then Inl [Not_ge ''max_distance_km'' 0.1 (Num d)]
          else if \<not> d \<le> 1000 then Inl [Not_le ''max_distance_km'' 1000 (Num d)]
          else Inr \<lparr>latitude = x, longitude = y, max_distance_km = Some d\<rparr>
      | Some Infinity \<Rightarrow> Inl [Not_le ''max_distance_km'' 1000 Infinity]
      | Some Minus_Infinity \<Rightarrow> Inl [Not_ge ''max_distance_km'' 0.1 Minus_Infinity])"
  using assms by (simp add: validate_defs split: option.splits jnum.splits)






lemma get_soil_carbon_calls:
  assumes "- 90 \<le> latitude request" "latitude request \<le> 90"
    "- 180 \<le> longitude request" "longitude request \<le> 180"
  shows "snd (get_soil_carbon ossl request) =
           [(latitude request, longitude request, max_distance_km request)]"
  using assms by (simp add: get_soil_carbon_def)

lemma boston_fields:
  "boston ''latitude'' = Some (Num 42.3601)"
  "boston ''longitude'' = Some (Num (- 71.0589))"
  "boston ''max_distance_km'' = Some (Num 10)"
  by (simp_all add: boston_def)

lemma boston_no_radius_fields:
  "boston_no_radius ''latitude'' = Some (Num 42.3601)"
  "boston_no_radius ''longitude'' = Some (Num (- 71.0589))"
  "boston_no_radius ''max_distance_km'' = None"
  by (simp_all add: boston_no_radius_def)

lemma boston_null_radius_fields:
  "boston_null_radius ''latitude'' = Some (Num 42.3601)"
  "boston_null_radius ''longitude'' = Some (Num (- 71.0589))"
  "boston_null_radius ''max_distance_km'' = Some Null"
  by (simp_all add: boston_null_radius_def)

lemma boston_in_range:
  "- 90 \<le> (42.3601::real)" "(42.3601::real) \<le> 90"
  "- 180 \<le> (- 71.0589::real)" "(- 71.0589::real) \<le> 180"
  by simp_all

section \<open>The claims about validation and the radius\<close>




text \<open>
  C6, as amended.  With valid coordinates, a numeric \<open>max_distance_km\<close> is accepted
  exactly when it lies in \<open>[0.1, 1000]\<close>, and the lookup is then called with it; an
  explicit \<open>null\<close> is accepted too, as \<open>None\<close>; and when the field is left out the
  request carries the default 10.0 and the lookup is called with 10.0.
\<close>

theorem max_distance_bounds_and_default:
  assumes "b ''latitude'' = Some (Num x)" "- 90 \<le> x" "x \<le> 90"
    and "b ''longitude'' = Some (Num y)" "- 180 \<le> y" "y \<le> 180"
  shows "(\<forall>d. b ''max_distance_km'' = Some (Num d) \<longrightarrow>
            ((\<exists>request. validate b = Inr request) \<longleftrightarrow> 0.1 \<le> d \<and> d \<le> 1000) \<and>
            (0.1 \<le> d \<and> d \<le> 1000 \<longrightarrow> snd (post_soil_carbon ossl b) = [(x, y, Some d)])) \<and>
         (b ''max_distance_km'' = Some Null \<longrightarrow>
            validate b = Inr \<lparr>latitude = x, longitude = y, max_distance_km = None\<rparr>) \<and>
         (b ''max_distance_km'' = None \<longrightarrow>
            validate b = Inr \<lparr>latitude = x, longitude = y, max_distance_km = Some 10.0\<rparr> \<and>
            snd (post_soil_carbon ossl b) = [(x, y, Some 10.0)])"
  using validate_coords_ok[OF assms]
  by (auto simp: post_soil_carbon_def get_soil_carbon_calls assms)

theorem max_distance_bounds_and_default_witness:
  "boston_no_radius ''latitude'' = Some (Num 42.3601) \<and>
   boston_no_radius ''longitude'' = Some (Num (- 71.0589)) \<and>
   boston_no_radius ''max_distance_km'' = None \<and>
   validate boston_no_radius =
     Inr \<lparr>latitude = 42.3601, longitude = - 71.0589, max_distance_km = Some 10.0\<rparr> \<and>
   snd (post_soil_carbon (Inr []) boston_no_radius) = [(42.3601, - 71.0589, Some 10.0)] \<and>
   boston ''max_distance_km'' = Some (Num 10) \<and>
   snd (post_soil_carbon (Inr []) boston) = [(42.3601, - 71.0589, Some 10.0)]"
proof -
  note a = boston_no_radius_fields and b = boston_fields and r = boston_in_range
  from max_distance_bounds_and_default[OF a(1) r(1,2) a(2) r(3,4), of "Inr []"]
    max_distance_bounds_and_default[OF b(1) r(1,2) b(2) r(3,4), of "Inr []"] a b
  show ?thesis by simp
qed

text \<open>
  C6, as stated, fails: the body of the Boston request with \<open>max_distance_km\<close> set to
  \<open>null\<close> is accepted, with no number in \<open>[0.1, 1000]\<close> for the radius; the mock
  variant answers it with status 200.
\<close>

theorem null_radius_accepted:
  "boston_null_radius ''max_distance_km'' = Some Null \<and>
   validate boston_null_radius =
     Inr \<lparr>latitude = 42.3601, longitude = - 71.0589, max_distance_km = None\<rparr> \<and>
   status_code (post_soil_carbon_simple boston_null_radius) = 200"
  by (simp add: validate_boston_null_radius post_soil_carbon_simple_def
      get_soil_carbon_simple_def boston_null_radius_fields)

text \<open>
  C9.  When the body sets \<open>max_distance_km\<close> to \<open>null\<close> (and its coordinates are
  valid), validation accepts the field as \<open>None\<close>, the handler calls the lookup with
  \<open>None\<close>, and the response of \<open>main.py\<close> is the internal server error with status
  500, not a client error; this holds whatever the dataset.
\<close>

theorem null_radius_internal_error:
  assumes "b ''latitude'' = Some (Num x)" "- 90 \<le> x" "x \<le> 90"
    and "b ''longitude'' = Some (Num y)" "- 180 \<le> y" "y \<le> 180"
    and "b ''max_distance_km'' = Some Null"
  shows "optional_float b ''max_distance_km'' 10.0 0.1 1000 = Inr None \<and>
         validate b = Inr \<lparr>latitude = x, longitude = y, max_distance_km = None\<rparr> \<and>
         snd (post_soil_carbon ossl b) = [(x, y, None)] \<and>
         (\<exists>detail. fst (post_soil_carbon ossl b) = HTTPException 500 detail \<and>
                   hd detail = Lit ''Internal server error: '') \<and>
         \<not> client_error (fst (post_soil_carbon ossl b))"
  using validate_coords_ok[OF assms(1-6)] assms
  by (auto simp: post_soil_carbon_def get_soil_carbon_def find_soil_carbon_optimized_def
      optional_float_def client_error_def split: sum.splits)

theorem null_radius_internal_error_witness:
  "boston_null_radius ''max_distance_km'' = Some Null \<and>
   post_soil_carbon (Inr []) boston_null_radius =
     (HTTPException 500
        (Lit ''Internal server error: '' # Lit ''Error processing soil carbon data: '' #
           type_error_text),
      [(42.3601, - 71.0589, None)])"
proof -
  note a = boston_null_radius_fields and r = boston_in_range
  from null_radius_internal_error[OF a(1) r(1,2) a(2) r(3,4) a(3), of "Inr []"] a(3)
  show ?thesis
    by (simp add: post_soil_carbon_def get_soil_carbon_def find_soil_carbon_optimized_def
        validate_boston_null_radius)
qed

section \<open>The claim about the mock variant\<close>

text \<open>
  C8.  In \<open>main_simple.py\<close> every request that passes validation is answered with
  \<open>success = True\<close> and the fixed data (carbon_pct 2.5, sample_id "mock_12345",
  distance_meters 1500.0 and a note), with the request's latitude and longitude each
  increased by 0.01; and no response of the mock variant has \<open>success = False\<close>.
\<close>

theorem mock_always_succeeds:
  assumes "validate b = Inr request"
  shows "post_soil_carbon_simple b =
           Response200 \<lparr>success = True,
             message = [Lit ''Mock soil carbon data returned successfully''],
             data = Some
               [(''carbon_pct'', JNum 2.5),
                (''sample_id'', JStr ''mock_12345''),
                (''distance_meters'', JNum 1500.0),
                (''latitude'', JNum (latitude request + 0.01)),
                (''longitude'', JNum (longitude request + 0.01)),
                (''note'', JStr
                  ''This is mock data. Real soil carbon functionality will be added after deployment.'')]\<rparr>
         \<and> (\<forall>b' r. post_soil_carbon_simple b' = Response200 r \<longrightarrow> success r)"
proof -
  have "get_soil_carbon_simple request =
          Response200 \<lparr>success = True,
            message = [Lit ''Mock soil carbon data returned successfully''],
            data = Some (mock_data request)\<rparr>"
    using validate_in_range[OF assms] by (simp add: get_soil_carbon_simple_def)
  then have first: "post_soil_carbon_simple b =
          Response200 \<lparr>success = True,
            message = [Lit ''Mock soil carbon data returned successfully''],
            data = Some (mock_data request)\<rparr>"
    using assms by (simp add: post_soil_carbon_simple_def)
  have "success r" if "post_soil_carbon_simple b' = Response200 r" for b' r
    using that
    by (auto simp: post_soil_carbon_simple_def get_soil_carbon_simple_def
        validation_error_response_def split: sum.splits if_splits)
  with first show ?thesis by (simp add: mock_data_def)
qed

theorem mock_always_succeeds_witness:
  "validate boston =
     Inr \<lparr>latitude = 42.3601, longitude = - 71.0589, max_distance_km = Some 10\<rparr> \<and>
   post_soil_carbon_simple boston =
           Response200 \<lparr>success = True,
             message = [Lit ''Mock soil carbon data returned successfully''],
             data = Some
               [(''carbon_pct'', JNum 2.5),
                (''sample_id'', JStr ''mock_12345''),
                (''distance_meters'', JNum 1500.0),
                (''latitude'', JNum 42.3701),
                (''longitude'', JNum (- 71.0489)),
                (''note'', JStr
                  ''This is mock data. Real soil carbon functionality will be added after deployment.'')]\<rparr>"
  using mock_always_succeeds[OF validate_boston] validate_boston by simp

section \<open>Properties of the lookup\<close>

lemma hd_sort_key_in: "xs \<noteq> [] \<Longrightarrow> hd (sort_key f xs) \<in> set xs"
  by (metis hd_in_set set_sort set_empty)

lemma hd_sort_key_least:
  assumes "y \<in> set xs"
  shows "f (hd (sort_key f xs)) \<le> f y"
proof -
  have s: "sorted (map f (sort_key f xs))" by (rule sorted_sort_key)
  have y: "y \<in> set (sort_key f xs)" using assms by simp
  then obtain z zs where e: "sort_key f xs = z # zs" by (cases "sort_key f xs") auto
  with s y show ?thesis by auto
qed

lemma first_notnull_None:
  "first_notnull r vars = None \<longleftrightarrow> (\<forall>v \<in> set vars. cols r v = None)"
  by (induction vars) (auto split: option.splits)

lemma possible_matches_iff:
  "g \<in> set (possible_matches gdf p d) \<longleftrightarrow>
     0 < d \<and> g \<in> set gdf \<and>
     in_bounds (fst p - d / 111, snd p - d / 111, fst p + d / 111, snd p + d / 111) (snd g)"
  by (auto simp: possible_matches_def buffer_bounds_def sindex_intersection_def Let_def)

lemma nearby_iff:
  "g \<in> set (nearby gdf p d) \<longleftrightarrow>
     0 < d \<and> g \<in> set gdf \<and>
     in_bounds (fst p - d / 111, snd p - d / 111, fst p + d / 111, snd p + d / 111) (snd g) \<and>
     distance_m p g \<le> d * 1000"
  by (auto simp: nearby_def possible_matches_iff)

lemma lookup_cases:
  "lookup props lat lon d =
     (if nearby (GeoDataFrame props) (lon, lat) d = [] then Str (no_data d)
      else let nearest = hd (sort_key (distance_m (lon, lat))
                               (nearby (GeoDataFrame props) (lon, lat) d))
           in case first_notnull (fst nearest) carbon_vars of
                None \<Rightarrow> Str (no_carbon d)
              | Some carbon_val \<Rightarrow>
                  Dict [(''carbon_pct'', JNum carbon_val),
                        (''sample_id'', name (fst nearest)),
                        (''distance_meters'', JNum (distance_m (lon, lat) nearest)),
                        (''latitude'', JNum (snd (snd nearest))),
                        (''longitude'', JNum (fst (snd nearest)))])"
  by (auto simp: lookup_def Let_def nearby_def)

lemma lookup_Dict:
  assumes "lookup props lat lon d = Dict result"
  shows "\<exists>g c. g \<in> set (nearby (GeoDataFrame props) (lon, lat) d) \<and>
           first_notnull (fst g) carbon_vars = Some c \<and>
           result = [(''carbon_pct'', JNum c),
                     (''sample_id'', name (fst g)),
                     (''distance_meters'', JNum (distance_m (lon, lat) g)),
                     (''latitude'', JNum (snd (snd g))),
                     (''longitude'', JNum (fst (snd g)))] \<and>
           (\<forall>g' \<in> set (nearby (GeoDataFrame props) (lon, lat) d).
              distance_m (lon, lat) g \<le> distance_m (lon, lat) g')"
proof -
  let ?nb = "nearby (GeoDataFrame props) (lon, lat) d"
  let ?g = "hd (sort_key (distance_m (lon, lat)) ?nb)"
  from assms have ne: "?nb \<noteq> []"
    by (auto simp: lookup_cases split: if_splits)
  with assms obtain c where c: "first_notnull (fst ?g) carbon_vars = Some c"
    and r: "result = [(''carbon_pct'', JNum c),
                     (''sample_id'', name (fst ?g)),
                     (''distance_meters'', JNum (distance_m (lon, lat) ?g)),
                     (''latitude'', JNum (snd (snd ?g))),
                     (''longitude'', JNum (fst (snd ?g)))]"
    by (auto simp: lookup_cases Let_def split: option.splits)
  have "?g \<in> set ?nb" using ne by (rule hd_sort_key_in)
  moreover have "\<forall>g' \<in> set ?nb. distance_m (lon, lat) ?g \<le> distance_m (lon, lat) g'"
    by (simp add: hd_sort_key_least)
  ultimately show ?thesis using c r by blast
qed

lemma find_Dict:
  "find_soil_carbon_optimized ossl lat lon md = Inr (Dict result) \<longleftrightarrow>
     (\<exists>props d. ossl = Inr props \<and> md = Some d \<and> lookup props lat lon d = Dict result)"
  by (auto simp: find_soil_carbon_optimized_def split: sum.splits option.splits)

text \<open>
  C4.  When the lookup returns data, the sample it reports is a row of the frame whose
  computed distance, the reported \<open>distance_meters\<close>, is at most
  \<open>max_distance_km * 1000\<close> and is minimal among the computed distances of all rows
  that pass the bounding-box filter and the radius filter.
\<close>

theorem nearest_within_radius:
  assumes "find_soil_carbon_optimized ossl lat lon md = Inr (Dict result)"
  shows "\<exists>props d g c. ossl = Inr props \<and> md = Some d \<and> 0 < d \<and> g \<in> set (GeoDataFrame props) \<and>
           result = [(''carbon_pct'', JNum c),
                     (''sample_id'', name (fst g)),
                     (''distance_meters'', JNum (distance_m (lon, lat) g)),
                     (''latitude'', JNum (snd (snd g))),
                     (''longitude'', JNum (fst (snd g)))] \<and>
           distance_m (lon, lat) g \<le> d * 1000 \<and>
           (\<forall>g' \<in> set (GeoDataFrame props).
              in_bounds (lon - d / 111, lat - d / 111, lon + d / 111, lat + d / 111) (snd g') \<and>
              distance_m (lon, lat) g' \<le> d * 1000 \<longrightarrow>
              distance_m (lon, lat) g \<le> distance_m (lon, lat) g')"
proof -
  from assms obtain props d where o: "ossl = Inr props" "md = Some d"
    and l: "lookup props lat lon d = Dict result"
    unfolding find_Dict by blast
  from lookup_Dict[OF l] obtain g c where
    g: "g \<in> set (nearby (GeoDataFrame props) (lon, lat) d)"
    and r: "result = [(''carbon_pct'', JNum c),
                     (''sample_id'', name (fst g)),
                     (''distance_meters'', JNum (distance_m (lon, lat) g)),
                     (''latitude'', JNum (snd (snd g))),
                     (''longitude'', JNum (fst (snd g)))]"
    and m: "\<forall>g' \<in> set (nearby (GeoDataFrame props) (lon, lat) d).
              distance_m (lon, lat) g \<le> distance_m (lon, lat) g'"
    by blast
  from g have d: "0 < d" "g \<in> set (GeoDataFrame props)" "distance_m (lon, lat) g \<le> d * 1000"
    by (simp_all add: nearby_iff)
  from m d(1) have "\<forall>g' \<in> set (GeoDataFrame props).
      in_bounds (lon - d / 111, lat - d / 111, lon + d / 111, lat + d / 111) (snd g') \<and>
      distance_m (lon, lat) g' \<le> d * 1000 \<longrightarrow>
      distance_m (lon, lat) g \<le> distance_m (lon, lat) g'"
    by (simp add: nearby_iff)
  with o r d show ?thesis by blast
qed

section \<open>The lookup on the sample data\<close>

lemmas sample_defs = no_coordinates_def far_with_carbon_def near_without_carbon_def
  near_with_carbon_def outside_def north_def

lemmas nearby_defs = nearby_def possible_matches_def buffer_bounds_def
  sindex_intersection_def in_bounds_def

lemma GeoDataFrame_Nil: "GeoDataFrame [] = []"
  by (simp add: GeoDataFrame_def dropna_def points_from_xy_def)

lemma GeoDataFrame_Cons:
  "GeoDataFrame (r # props) =
     (case (cols r ''longitude.point_wgs84_dd'', cols r ''latitude.point_wgs84_dd'') of
        (Some x, Some y) \<Rightarrow> (r, (x, y)) # GeoDataFrame props
      | _ \<Rightarrow> GeoDataFrame props)"
  by (auto simp: GeoDataFrame_def dropna_def points_from_xy_def split: option.splits)

lemma distance_m_same_latitude:
  "distance_m (x0, y) (r, (x1, y)) = earth_radius * \<bar>x1 - x0\<bar> * pi / 180"
proof -
  have "distance_m (x0, y) (r, (x1, y)) =
          \<bar>earth_radius * (x1 * pi / 180) - earth_radius * (x0 * pi / 180)\<bar>"
    by (simp add: distance_m_def distance_def to_crs_3857_def)
  also have "earth_radius * (x1 * pi / 180) - earth_radius * (x0 * pi / 180)
          = (earth_radius * pi / 180) * (x1 - x0)"
    by (simp add: algebra_simps)
  also have "\<bar>(earth_radius * pi / 180) * (x1 - x0)\<bar> = (earth_radius * pi / 180) * \<bar>x1 - x0\<bar>"
    by (simp add: abs_mult earth_radius_def)
  finally show ?thesis by simp
qed

text \<open>The frame with the near sample that has no carbon value.\<close>

lemma GeoDataFrame_a:
  "GeoDataFrame [no_coordinates, far_with_carbon, near_without_carbon, outside] =
   [(far_with_carbon, (- 71.0089, 42.3601)), (near_without_carbon, (- 71.0489, 42.3601)),
    (outside, (- 70, 42.3601))]"
  by (simp add: GeoDataFrame_Cons GeoDataFrame_Nil sample_defs)

lemma nearby_a:
  "nearby [(far_with_carbon, (- 71.0089, 42.3601)), (near_without_carbon, (- 71.0489, 42.3601)),
    (outside, (- 70, 42.3601))] (- 71.0589, 42.3601) 10 =
   [(far_with_carbon, (- 71.0089, 42.3601)), (near_without_carbon, (- 71.0489, 42.3601))]"
  using pi_less_4 pi_ge_two
  by (simp add: nearby_defs distance_m_same_latitude earth_radius_def)

lemma sort_a:
  "sort_key (distance_m (- 71.0589, 42.3601))
     [(far_with_carbon, (- 71.0089, 42.3601)), (near_without_carbon, (- 71.0489, 42.3601))] =
   [(near_without_carbon, (- 71.0489, 42.3601)), (far_with_carbon, (- 71.0089, 42.3601))]"
  using pi_gt_zero
  by (simp add: distance_m_same_latitude earth_radius_def)

lemma lookup_a:
  "lookup [no_coordinates, far_with_carbon, near_without_carbon, outside] 42.3601 (- 71.0589) 10
     = Str (no_carbon 10)"
  unfolding lookup_cases GeoDataFrame_a nearby_a sort_a
  by (simp add: carbon_vars_def near_without_carbon_def)

text \<open>The frame with the near sample that has carbon values.\<close>

lemma GeoDataFrame_b:
  "GeoDataFrame [no_coordinates, far_with_carbon, near_with_carbon, outside] =
   [(far_with_carbon, (- 71.0089, 42.3601)), (near_with_carbon, (- 71.0489, 42.3601)),
    (outside, (- 70, 42.3601))]"
  by (simp add: GeoDataFrame_Cons GeoDataFrame_Nil sample_defs)

lemma nearby_b:
  "nearby [(far_with_carbon, (- 71.0089, 42.3601)), (near_with_carbon, (- 71.0489, 42.3601)),
    (outside, (- 70, 42.3601))] (- 71.0589, 42.3601) 10 =
   [(far_with_carbon, (- 71.0089, 42.3601)), (near_with_carbon, (- 71.0489, 42.3601))]"
  using pi_less_4 pi_ge_two
  by (simp add: nearby_defs distance_m_same_latitude earth_radius_def)

lemma sort_b:
  "sort_key (distance_m (- 71.0589, 42.3601))
     [(far_with_carbon, (- 71.0089, 42.3601)), (near_with_carbon, (- 71.0489, 42.3601))] =
   [(near_with_carbon, (- 71.0489, 42.3601)), (far_with_carbon, (- 71.0089, 42.3601))]"
  using pi_gt_zero
  by (simp add: distance_m_same_latitude earth_radius_def)

lemma distance_near:
  "distance_m (- 71.0589, 42.3601) (near_with_carbon, (- 71.0489, 42.3601)) =
     earth_radius * 0.01 * pi / 180"
  by (simp add: distance_m_same_latitude)

lemma lookup_b:
  "lookup [no_coordinates, far_with_carbon, near_with_carbon, outside] 42.3601 (- 71.0589) 10
     = Dict [(''carbon_pct'', JNum 2.5),
             (''sample_id'', JStr ''s3''),
             (''distance_meters'', JNum (earth_radius * 0.01 * pi / 180)),
             (''latitude'', JNum 42.3601),
             (''longitude'', JNum (- 71.0489))]"
  unfolding lookup_cases GeoDataFrame_b nearby_b sort_b
  by (simp add: carbon_vars_def distance_m_same_latitude near_with_carbon_def)

text \<open>The frame with no sample near the query.\<close>

lemma GeoDataFrame_c:
  "GeoDataFrame [no_coordinates, outside] = [(outside, (- 70, 42.3601))]"
  by (simp add: GeoDataFrame_Cons GeoDataFrame_Nil sample_defs)

lemma distance_outside:
  "distance_m (- 71.0589, 42.3601) (outside, (- 70, 42.3601)) = earth_radius * 1.0589 * pi / 180"
  by (simp add: distance_m_same_latitude)

lemma outside_too_far:
  "\<not> distance_m (- 71.0589, 42.3601) (outside, (- 70, 42.3601)) \<le> 10 * 1000"
  using pi_ge_two by (simp add: distance_m_same_latitude earth_radius_def)

text \<open>The frame at latitude 60.\<close>

lemma GeoDataFrame_n: "GeoDataFrame [north] = [(north, (1, 60))]"
  by (simp add: GeoDataFrame_Cons GeoDataFrame_Nil sample_defs)

lemma distance_north: "distance_m (0, 60) (north, (1, 60)) = earth_radius * pi / 180"
  by (simp add: distance_m_same_latitude)

lemma nearby_n: "nearby [(north, (1, 60))] (0, 60) 200 = [(north, (1, 60))]"
  using pi_less_4
  by (simp add: nearby_defs distance_m_same_latitude earth_radius_def)

lemma lookup_n:
  "lookup [north] 60 0 200 =
     Dict [(''carbon_pct'', JNum 1.2),
           (''sample_id'', JStr ''s5''),
           (''distance_meters'', JNum (earth_radius * pi / 180)),
           (''latitude'', JNum 60),
           (''longitude'', JNum 1)]"
  unfolding lookup_cases GeoDataFrame_n nearby_n
  by (simp add: carbon_vars_def distance_m_same_latitude north_def)

lemma great_circle_north:
  "great_circle_distance earth_radius (0, 60) (1, 60) < earth_radius * pi / 180"
proof -
  let ?c = "cos (pi / 180)"
  have c1: "?c < 1"
  proof -
    have "?c \<noteq> 1"
    proof
      assume "?c = 1"
      then obtain n :: int where n: "pi / 180 = of_int n * 2 * pi"
        unfolding cos_one_2pi_int by blast
      then have "1 = of_int n * (360::real)" by simp
      then have "(1::int) = n * 360" by (metis of_int_1 of_int_eq_iff of_int_mult of_int_numeral)
      then show False by presburger
    qed
    with cos_le_one[of "pi / 180"] show ?thesis by linarith
  qed
  have c0: "0 \<le> ?c" by (rule cos_ge_zero) (use pi_gt_zero in auto)
  have s: "sin (pi / 3) * sin (pi / 3) = 3 / 4"
    by (simp add: sin_60)
  have inner: "sin (radians 60) * sin (radians 60) +
               cos (radians 60) * cos (radians 60) * cos (radians (1 - 0)) = 3 / 4 + ?c / 4"
    by (simp add: radians_def s cos_60)
  have "arccos (3 / 4 + ?c / 4) < arccos ?c"
    by (rule arccos_less_arccos) (use c0 c1 in auto)
  also have "arccos ?c = pi / 180"
    by (rule arccos_cos) (use pi_gt_zero in auto)
  finally have "arccos (3 / 4 + ?c / 4) < pi / 180" .
  then have lt: "earth_radius * arccos (3 / 4 + ?c / 4) < earth_radius * (pi / 180)"
    by (simp add: earth_radius_def)
  have "great_circle_distance earth_radius (0, 60) (1, 60) =
          earth_radius * arccos (3 / 4 + ?c / 4)"
    unfolding great_circle_distance_def fst_conv snd_conv inner by (rule refl)
  with lt show ?thesis by simp
qed

section \<open>The claims about the lookup\<close>

lemma find_Inr: "find_soil_carbon_optimized (Inr props) lat lon (Some d) = Inr (lookup props lat lon d)"
  by (simp add: find_soil_carbon_optimized_def)

lemma post_soil_carbon_valid:
  assumes "validate b = Inr request" and "max_distance_km request = Some d"
  shows "fst (post_soil_carbon (Inr props) b) =
     (case lookup props (latitude request) (longitude request) d of
        Str result \<Rightarrow> Response200 \<lparr>success = False, message = result, data = None\<rparr>
      | Dict result \<Rightarrow> Response200 \<lparr>success = True,
               message = [Lit ''Soil carbon data found successfully''],
               data = Some result\<rparr>)"
  using assms validate_in_range[OF assms(1)]
  by (simp add: post_soil_carbon_def get_soil_carbon_def find_Inr split: lookup_result.splits)

text \<open>
  The lookup on the frame whose near sample has carbon values returns that sample; its
  reported distance is the distance of a row of the frame, within the 10 km.
\<close>

theorem nearest_within_radius_witness:
  "find_soil_carbon_optimized
      (Inr [no_coordinates, far_with_carbon, near_with_carbon, outside])
      42.3601 (- 71.0589) (Some 10) =
     Inr (Dict [(''carbon_pct'', JNum 2.5),
             (''sample_id'', JStr ''s3''),
             (''distance_meters'', JNum (earth_radius * 0.01 * pi / 180)),
             (''latitude'', JNum 42.3601),
             (''longitude'', JNum (- 71.0489))]) \<and>
   (\<exists>g. g \<in> set (GeoDataFrame [no_coordinates, far_with_carbon, near_with_carbon, outside]) \<and>
        JNum (earth_radius * 0.01 * pi / 180) = JNum (distance_m (- 71.0589, 42.3601) g) \<and>
        distance_m (- 71.0589, 42.3601) g \<le> 10 * 1000)"
proof -
  have h: "find_soil_carbon_optimized
      (Inr [no_coordinates, far_with_carbon, near_with_carbon, outside])
      42.3601 (- 71.0589) (Some 10) =
     Inr (Dict [(''carbon_pct'', JNum 2.5),
             (''sample_id'', JStr ''s3''),
             (''distance_meters'', JNum (earth_radius * 0.01 * pi / 180)),
             (''latitude'', JNum 42.3601),
             (''longitude'', JNum (- 71.0489))])"
    unfolding find_Inr lookup_b by (rule refl)
  from nearest_within_radius[OF h] obtain props d g c where
    "Inr [no_coordinates, far_with_carbon, near_with_carbon, outside] = (Inr props :: fstring + row list)"
    "Some (10::real) = Some d" "g \<in> set (GeoDataFrame props)"
    "[(''carbon_pct'', JNum 2.5),
             (''sample_id'', JStr ''s3''),
             (''distance_meters'', JNum (earth_radius * 0.01 * pi / 180)),
             (''latitude'', JNum 42.3601),
             (''longitude'', JNum (- 71.0489))] = [(''carbon_pct'', JNum c),
                     (''sample_id'', name (fst g)),
                     (''distance_meters'', JNum (distance_m (- 71.0589, 42.3601) g)),
                     (''latitude'', JNum (snd (snd g))),
                     (''longitude'', JNum (fst (snd g)))]"
    "distance_m (- 71.0589, 42.3601) g \<le> d * 1000"
    by blast
  then have "g \<in> set (GeoDataFrame [no_coordinates, far_with_carbon, near_with_carbon, outside]) \<and>
        JNum (earth_radius * 0.01 * pi / 180) = JNum (distance_m (- 71.0589, 42.3601) g) \<and>
        distance_m (- 71.0589, 42.3601) g \<le> 10 * 1000"
    by auto
  with h show ?thesis by blast
qed

text \<open>
  C1 at a failing input.  Around the Boston query, with a radius of 10 km, the frame
  holds a sample 0.01 degrees away with no carbon value and one 0.05 degrees away, within
  the radius, with one.  The lookup looks at the nearest sample only, and answers that
  no organic carbon data is available within 10 km.
\<close>

theorem nearest_without_carbon_hides_farther_sample:
  "find_soil_carbon_optimized
      (Inr [no_coordinates, far_with_carbon, near_without_carbon, outside])
      42.3601 (- 71.0589) (Some 10) =
     Inr (Str [Lit ''No organic carbon data available within '', Float 10, Lit '' km'']) \<and>
   (far_with_carbon, (- 71.0089, 42.3601)) \<in> set
     (nearby (GeoDataFrame [no_coordinates, far_with_carbon, near_without_carbon, outside])
        (- 71.0589, 42.3601) 10) \<and>
   cols far_with_carbon ''oc_usda.c729_w.pct'' = Some 1.8 \<and>
   fst (post_soil_carbon (Inr [no_coordinates, far_with_carbon, near_without_carbon, outside])
          boston) =
     Response200 \<lparr>success = False,
       message = [Lit ''No organic carbon data available within '', Float 10, Lit '' km''],
       data = None\<rparr>"
proof -
  have 1: "find_soil_carbon_optimized
      (Inr [no_coordinates, far_with_carbon, near_without_carbon, outside])
      42.3601 (- 71.0589) (Some 10) =
     Inr (Str [Lit ''No organic carbon data available within '', Float 10, Lit '' km''])"
    unfolding find_Inr lookup_a no_carbon_def by (rule refl)
  have 2: "(far_with_carbon, (- 71.0089, 42.3601)) \<in> set
     (nearby (GeoDataFrame [no_coordinates, far_with_carbon, near_without_carbon, outside])
        (- 71.0589, 42.3601) 10)"
    unfolding GeoDataFrame_a nearby_a by simp
  have 3: "cols far_with_carbon ''oc_usda.c729_w.pct'' = Some 1.8"
    by (simp add: far_with_carbon_def)
  have "fst (post_soil_carbon (Inr [no_coordinates, far_with_carbon, near_without_carbon, outside])
          boston) =
     (case lookup [no_coordinates, far_with_carbon, near_without_carbon, outside]
             42.3601 (- 71.0589) 10 of
        Str result \<Rightarrow> Response200 \<lparr>success = False, message = result, data = None\<rparr>
      | Dict result \<Rightarrow> Response200 \<lparr>success = True,
               message = [Lit ''Soil carbon data found successfully''],
               data = Some result\<rparr>)"
    using post_soil_carbon_valid[OF validate_boston, of 10] by simp
  then have 4: "fst (post_soil_carbon (Inr [no_coordinates, far_with_carbon, near_without_carbon, outside])
          boston) =
     Response200 \<lparr>success = False,
       message = [Lit ''No organic carbon data available within '', Float 10, Lit '' km''],
       data = None\<rparr>"
    unfolding lookup_a no_carbon_def by simp
  from 1 2 3 4 show ?thesis by blast
qed

text \<open>
  C7 at a failing input.  For a query at latitude 60 and a sample one degree of longitude
  further east, the lookup reports the planar distance of the two projected points,
  \<open>earth_radius * pi / 180\<close> (about 111.3 km), while the great-circle distance between
  them, even on the sphere of the projection, is shorter (about 55.7 km).
\<close>

theorem projected_distance_not_great_circle:
  "find_soil_carbon_optimized (Inr [north]) 60 0 (Some 200) =
     Inr (Dict [(''carbon_pct'', JNum 1.2),
           (''sample_id'', JStr ''s5''),
           (''distance_meters'', JNum (earth_radius * pi / 180)),
           (''latitude'', JNum 60),
           (''longitude'', JNum 1)]) \<and>
   distance_m (0, 60) (north, (1, 60)) = earth_radius * pi / 180 \<and>
   great_circle_distance earth_radius (0, 60) (1, 60) < earth_radius * pi / 180"
proof -
  have "find_soil_carbon_optimized (Inr [north]) 60 0 (Some 200) =
     Inr (Dict [(''carbon_pct'', JNum 1.2),
           (''sample_id'', JStr ''s5''),
           (''distance_meters'', JNum (earth_radius * pi / 180)),
           (''latitude'', JNum 60),
           (''longitude'', JNum 1)])"
    unfolding find_Inr lookup_n by (rule refl)
  with distance_north great_circle_north show ?thesis by blast
qed

text \<open>On the equator the two distances agree.\<close>

lemma great_circle_equator:
  assumes "\<bar>x1 - x0\<bar> \<le> 180"
  shows "great_circle_distance earth_radius (x0, 0) (x1, 0) = distance_m (x0, 0) (r, (x1, 0))"
proof -
  have "\<bar>radians (x1 - x0)\<bar> = \<bar>x1 - x0\<bar> * (pi / 180)"
    by (simp add: radians_def abs_mult)
  also have "\<dots> \<le> 180 * (pi / 180)"
    using assms by (intro mult_right_mono) auto
  finally have "\<bar>radians (x1 - x0)\<bar> \<le> pi" by simp
  then have "arccos (cos (radians (x1 - x0))) = \<bar>radians (x1 - x0)\<bar>"
    by (rule arccos_cos_eq_abs)
  then show ?thesis
    by (simp add: great_circle_distance_def distance_m_same_latitude radians_def abs_mult)
qed

section \<open>The claims about the responses of \<open>main.py\<close>\<close>

text \<open>
  C2.  For a request that passes validation with a radius \<open>d\<close> (given or default), on a
  loaded dataset: when no sample has a computed distance within \<open>d * 1000\<close>, the
  response has status 200 with \<open>success = False\<close>, \<open>data = None\<close> and the message
  "No Data in d km radius"; and when no sample that passes both filters has a value in
  any of the three carbon fields, the response has status 200 with \<open>success = False\<close>,
  \<open>data = None\<close> and the "No Data" message (no candidate) or the "No organic carbon
  data available" message (some candidate).
\<close>

theorem no_data_is_successful_response:
  assumes "validate b = Inr request" and "max_distance_km request = Some d"
  shows "((\<forall>g \<in> set (GeoDataFrame props).
             \<not> distance_m (longitude request, latitude request) g \<le> d * 1000) \<longrightarrow>
          fst (post_soil_carbon (Inr props) b) =
            Response200 \<lparr>success = False,
              message = [Lit ''No Data in '', Float d, Lit '' km radius''],
              data = None\<rparr>) \<and>
         ((\<forall>g \<in> set (nearby (GeoDataFrame props) (longitude request, latitude request) d).
             \<forall>var \<in> set carbon_vars. cols (fst g) var = None) \<longrightarrow>
          fst (post_soil_carbon (Inr props) b) =
            Response200 \<lparr>success = False,
              message =
                (if nearby (GeoDataFrame props) (longitude request, latitude request) d = []
                 then [Lit ''No Data in '', Float d, Lit '' km radius'']
                 else [Lit ''No organic carbon data available within '', Float d, Lit '' km'']),
              data = None\<rparr>)"
proof -
  let ?p = "(longitude request, latitude request)"
  let ?nb = "nearby (GeoDataFrame props) ?p d"
  note post = post_soil_carbon_valid[OF assms, of props]
  have a: "fst (post_soil_carbon (Inr props) b) =
            Response200 \<lparr>success = False, message = no_data d, data = None\<rparr>"
    if "?nb = []"
    using that post by (simp add: lookup_cases)
  have b: "fst (post_soil_carbon (Inr props) b) =
            Response200 \<lparr>success = False, message = no_carbon d, data = None\<rparr>"
    if ne: "?nb \<noteq> []" and nc: "\<forall>g \<in> set ?nb. \<forall>var \<in> set carbon_vars. cols (fst g) var = None"
  proof -
    have "hd (sort_key (distance_m ?p) ?nb) \<in> set ?nb" using ne by (rule hd_sort_key_in)
    with nc have "first_notnull (fst (hd (sort_key (distance_m ?p) ?nb))) carbon_vars = None"
      unfolding first_notnull_None by blast
    with ne post show ?thesis by (simp add: lookup_cases)
  qed
  have c: "?nb = []"
    if "\<forall>g \<in> set (GeoDataFrame props). \<not> distance_m ?p g \<le> d * 1000"
  proof (rule ccontr)
    assume "?nb \<noteq> []"
    then obtain g where "g \<in> set ?nb" by (cases ?nb) auto
    with that show False by (auto simp: nearby_iff)
  qed
  from a b c show ?thesis by (auto simp: no_data_def no_carbon_def)
qed

lemma GeoDataFrame_d:
  "GeoDataFrame [no_coordinates, near_without_carbon, outside] =
   [(near_without_carbon, (- 71.0489, 42.3601)), (outside, (- 70, 42.3601))]"
  by (simp add: GeoDataFrame_Cons GeoDataFrame_Nil sample_defs)

lemma nearby_d:
  "nearby [(near_without_carbon, (- 71.0489, 42.3601)), (outside, (- 70, 42.3601))]
     (- 71.0589, 42.3601) 10 =
   [(near_without_carbon, (- 71.0489, 42.3601))]"
  using pi_less_4 pi_ge_two
  by (simp add: nearby_defs distance_m_same_latitude earth_radius_def)

lemma near_without_carbon_cols:
  "\<forall>var \<in> set carbon_vars. cols near_without_carbon var = None"
  by (simp add: carbon_vars_def near_without_carbon_def)

theorem no_data_is_successful_response_witness:
  "validate boston =
     Inr \<lparr>latitude = 42.3601, longitude = - 71.0589, max_distance_km = Some 10\<rparr> \<and>
   fst (post_soil_carbon (Inr [no_coordinates, outside]) boston) =
     Response200 \<lparr>success = False,
       message = [Lit ''No Data in '', Float 10, Lit '' km radius''], data = None\<rparr> \<and>
   fst (post_soil_carbon (Inr [no_coordinates, near_without_carbon, outside]) boston) =
     Response200 \<lparr>success = False,
       message = [Lit ''No organic carbon data available within '', Float 10, Lit '' km''],
       data = None\<rparr>"
proof -
  let ?r = "\<lparr>latitude = 42.3601, longitude = - 71.0589, max_distance_km = Some 10\<rparr>"
  have m: "max_distance_km ?r = Some 10" by simp
  have p: "(longitude ?r, latitude ?r) = (- 71.0589, 42.3601)" by simp
  have h1: "\<forall>g \<in> set (GeoDataFrame [no_coordinates, outside]).
              \<not> distance_m (longitude ?r, latitude ?r) g \<le> 10 * 1000"
    unfolding GeoDataFrame_c p using outside_too_far by simp
  have n2: "nearby (GeoDataFrame [no_coordinates, near_without_carbon, outside])
              (longitude ?r, latitude ?r) 10 = [(near_without_carbon, (- 71.0489, 42.3601))]"
    unfolding GeoDataFrame_d p nearby_d by (rule refl)
  have h2: "\<forall>g \<in> set (nearby (GeoDataFrame [no_coordinates, near_without_carbon, outside])
              (longitude ?r, latitude ?r) 10). \<forall>var \<in> set carbon_vars. cols (fst g) var = None"
    unfolding n2 using near_without_carbon_cols by simp
  from no_data_is_successful_response[OF validate_boston m, of "[no_coordinates, outside]"] h1
  have r1: "fst (post_soil_carbon (Inr [no_coordinates, outside]) boston) =
     Response200 \<lparr>success = False,
       message = [Lit ''No Data in '', Float 10, Lit '' km radius''], data = None\<rparr>"
    by blast
  from no_data_is_successful_response[OF validate_boston m,
      of "[no_coordinates, near_without_carbon, outside]"] h2
  have "fst (post_soil_carbon (Inr [no_coordinates, near_without_carbon, outside]) boston) =
     Response200 \<lparr>success = False,
       message =
         (if nearby (GeoDataFrame [no_coordinates, near_without_carbon, outside])
               (longitude ?r, latitude ?r) 10 = []
          then [Lit ''No Data in '', Float 10, Lit '' km radius'']
          else [Lit ''No organic carbon data available within '', Float 10, Lit '' km'']),
       data = None\<rparr>"
    by blast
  then have r2: "fst (post_soil_carbon (Inr [no_coordinates, near_without_carbon, outside]) boston) =
     Response200 \<lparr>success = False,
       message = [Lit ''No organic carbon data available within '', Float 10, Lit '' km''],
       data = None\<rparr>"
    unfolding n2 by simp
  from validate_boston r1 r2 show ?thesis by blast
qed

lemma lookup_Dict_keys:
  assumes "lookup props lat lon d = Dict result"
  shows "keys result =
     [''carbon_pct'', ''sample_id'', ''distance_meters'', ''latitude'', ''longitude'']"
  using lookup_Dict[OF assms] by (auto simp: keys_def)

lemma get_soil_carbon_body:
  assumes "body_of (fst (get_soil_carbon ossl request)) = Some r"
  shows "if success r
         then \<exists>d. data r = Some d \<and> keys d =
                [''carbon_pct'', ''sample_id'', ''distance_meters'', ''latitude'', ''longitude'']
         else data r = None"
  using assms
  by (auto simp: get_soil_carbon_def find_soil_carbon_optimized_def lookup_Dict_keys
      split: if_splits sum.splits option.splits lookup_result.splits)

lemma get_soil_carbon_status:
  "status_code (fst (get_soil_carbon ossl request)) = 200 \<longleftrightarrow>
     body_of (fst (get_soil_carbon ossl request)) \<noteq> None"
  by (auto simp: get_soil_carbon_def split: if_splits sum.splits lookup_result.splits)

text \<open>
  C5, as amended.  A response of \<open>POST /soil_carbon\<close> has status 200 exactly when it
  carries a body \<open>{success, message, data}\<close>.  In \<open>main.py\<close> such a body has, when
  \<open>success\<close> is true, a data object with exactly the fields carbon_pct, sample_id,
  distance_meters, latitude and longitude, and otherwise no data; in \<open>main_simple.py\<close>
  it always has \<open>success\<close> true and a data object with these five fields and the field
  note.
\<close>

theorem response_shape:
  "(status_code (fst (post_soil_carbon ossl b)) = 200 \<longleftrightarrow>
      body_of (fst (post_soil_carbon ossl b)) \<noteq> None) \<and>
   (\<forall>r. body_of (fst (post_soil_carbon ossl b)) = Some r \<longrightarrow>
      (if success r
       then \<exists>d. data r = Some d \<and> keys d =
              [''carbon_pct'', ''sample_id'', ''distance_meters'', ''latitude'', ''longitude'']
       else data r = None)) \<and>
   (status_code (post_soil_carbon_simple b) = 200 \<longleftrightarrow>
      body_of (post_soil_carbon_simple b) \<noteq> None) \<and>
   (\<forall>r. body_of (post_soil_carbon_simple b) = Some r \<longrightarrow>
      success r \<and>
      (\<exists>d. data r = Some d \<and> keys d =
         [''carbon_pct'', ''sample_id'', ''distance_meters'', ''latitude'', ''longitude'',
          ''note'']))"
proof -
  have 1: "status_code (fst (post_soil_carbon ossl b)) = 200 \<longleftrightarrow>
      body_of (fst (post_soil_carbon ossl b)) \<noteq> None"
    by (cases "validate b") (simp_all add: post_soil_carbon_def get_soil_carbon_status)
  have 2: "if success r
       then \<exists>d. data r = Some d \<and> keys d =
              [''carbon_pct'', ''sample_id'', ''distance_meters'', ''latitude'', ''longitude'']
       else data r = None"
    if "body_of (fst (post_soil_carbon ossl b)) = Some r" for r
    using that
    by (cases "validate b") (simp_all add: post_soil_carbon_def get_soil_carbon_body)
  have 3: "status_code (post_soil_carbon_simple b) = 200 \<longleftrightarrow>
      body_of (post_soil_carbon_simple b) \<noteq> None"
    by (cases "validate b")
      (simp_all add: post_soil_carbon_simple_def get_soil_carbon_simple_def)
  have 4: "success r \<and>
      (\<exists>d. data r = Some d \<and> keys d =
         [''carbon_pct'', ''sample_id'', ''distance_meters'', ''latitude'', ''longitude'',
          ''note''])"
    if "body_of (post_soil_carbon_simple b) = Some r" for r
    using that
    by (cases "validate b")
      (auto simp: post_soil_carbon_simple_def get_soil_carbon_simple_def mock_data_def keys_def
        split: if_splits)
  from 1 2 3 4 show ?thesis by blast
qed

lemma post_boston_b:
  "fst (post_soil_carbon (Inr [no_coordinates, far_with_carbon, near_with_carbon, outside])
          boston) =
     Response200 \<lparr>success = True,
       message = [Lit ''Soil carbon data found successfully''],
       data = Some [(''carbon_pct'', JNum 2.5),
             (''sample_id'', JStr ''s3''),
             (''distance_meters'', JNum (earth_radius * 0.01 * pi / 180)),
             (''latitude'', JNum 42.3601),
             (''longitude'', JNum (- 71.0489))]\<rparr>"
proof -
  have "fst (post_soil_carbon (Inr [no_coordinates, far_with_carbon, near_with_carbon, outside])
          boston) =
     (case lookup [no_coordinates, far_with_carbon, near_with_carbon, outside]
             42.3601 (- 71.0589) 10 of
        Str result \<Rightarrow> Response200 \<lparr>success = False, message = result, data = None\<rparr>
      | Dict result \<Rightarrow> Response200 \<lparr>success = True,
               message = [Lit ''Soil carbon data found successfully''],
               data = Some result\<rparr>)"
    using post_soil_carbon_valid[OF validate_boston, of 10] by simp
  then show ?thesis unfolding lookup_b by simp
qed

theorem response_shape_witness:
  "body_of (fst (post_soil_carbon
      (Inr [no_coordinates, far_with_carbon, near_with_carbon, outside]) boston)) =
     Some \<lparr>success = True,
       message = [Lit ''Soil carbon data found successfully''],
       data = Some [(''carbon_pct'', JNum 2.5),
             (''sample_id'', JStr ''s3''),
             (''distance_meters'', JNum (earth_radius * 0.01 * pi / 180)),
             (''latitude'', JNum 42.3601),
             (''longitude'', JNum (- 71.0489))]\<rparr> \<and>
   status_code (fst (post_soil_carbon
      (Inr [no_coordinates, far_with_carbon, near_with_carbon, outside]) boston)) = 200 \<and>
   keys [(''carbon_pct'', JNum 2.5),
             (''sample_id'', JStr ''s3''),
             (''distance_meters'', JNum (earth_radius * 0.01 * pi / 180)),
             (''latitude'', JNum 42.3601),
             (''longitude'', JNum (- 71.0489))] =
     [''carbon_pct'', ''sample_id'', ''distance_meters'', ''latitude'', ''longitude'']"
  using response_shape[of "Inr [no_coordinates, far_with_carbon, near_with_carbon, outside]" boston]
  by (simp add: post_boston_b keys_def)

text \<open>
  C5, as stated, fails: the mock variant answers the Boston request with
  \<open>success = True\<close> and a data object of six fields, and the request with latitude 200
  is answered without a body of that shape.
\<close>

theorem response_shape_counterexample:
  "post_soil_carbon_simple boston =
           Response200 \<lparr>success = True,
             message = [Lit ''Mock soil carbon data returned successfully''],
             data = Some (mock_data
               \<lparr>latitude = 42.3601, longitude = - 71.0589, max_distance_km = Some 10\<rparr>)\<rparr> \<and>
   keys (mock_data \<lparr>latitude = 42.3601, longitude = - 71.0589, max_distance_km = Some 10\<rparr>) =
     [''carbon_pct'', ''sample_id'', ''distance_meters'', ''latitude'', ''longitude'', ''note''] \<and>
   keys (mock_data \<lparr>latitude = 42.3601, longitude = - 71.0589, max_distance_km = Some 10\<rparr>) \<noteq>
     [''carbon_pct'', ''sample_id'', ''distance_meters'', ''latitude'', ''longitude''] \<and>
   body_of (fst (post_soil_carbon (Inr []) invalid_coordinates)) = None"
  by (simp add: post_soil_carbon_simple_def post_soil_carbon_def validate_boston
      validate_invalid_coordinates get_soil_carbon_simple_def mock_data_def keys_def)

end
